theory Spec2Isabelle
  imports Complex_Main
begin

section \<open>Fluid65: the SPH physics update of \<^verbatim>\<open>src/main.cpp\<close>\<close>

text \<open>
  The development embeds the physics core of \<^verbatim>\<open>src/main.cpp\<close>: the smoothing kernels,
  the per-particle samplers, \<^verbatim>\<open>updateParticles\<close> and the driver loop of \<^verbatim>\<open>main\<close>.

  Numbers: the C++ type \<^verbatim>\<open>float\<close> is read as \<^typ>\<open>real\<close>. Arithmetic is therefore exact:
  there is no rounding, no overflow and there are no infinities or NaN values. A division
  whose divisor is zero has the value \<open>0\<close> in HOL, whereas IEEE arithmetic yields an
  infinity or a NaN; no theorem below depends on the value of such a quotient, and where
  a statement is about the absence of a NaN the division is written with its divisor
  checked (\<open>fdiv\<close>).
  \<^verbatim>\<open>powf(b, k)\<close> with a whole-number exponent \<open>k\<close> is the power \<open>b ^ k\<close>.

  Data: the global array \<^verbatim>\<open>Particle particles[numParticles]\<close> is a \<open>Particle list\<close>
  passed explicitly and returned updated; the loops \<^verbatim>\<open>for (i = 0; i < numParticles; i++)\<close>
  run over all indices of that list in increasing order. The source fixes
  \<^verbatim>\<open>numParticles = 1000\<close>; the theorems hold for an array of any length. The sampler
  \<^verbatim>\<open>sampleColor\<close> is never called and is left out.
\<close>

subsection \<open>Vectors (raymath)\<close>

text \<open>
  Modelled from the spec: \<^verbatim>\<open>Vector3\<close> and the \<^verbatim>\<open>Vector3...\<close> functions belong to the
  raylib header \<^verbatim>\<open>raymath.h\<close>, a library that is not under \<^verbatim>\<open>src/\<close>. The spec uses them
  as the usual vector arithmetic (sum, difference, scaling, dot product, Euclidean length
  \<open>|r|\<close>); they are written here component by component, which is how raymath defines the
  functions of these names.
\<close>

record Vector3 =
  x :: real
  y :: real
  z :: real

definition Vector3Zero :: Vector3 where
  "Vector3Zero = \<lparr>x = 0, y = 0, z = 0\<rparr>"

definition Vector3Add :: "Vector3 \<Rightarrow> Vector3 \<Rightarrow> Vector3" where
  "Vector3Add v1 v2 = \<lparr>x = x v1 + x v2, y = y v1 + y v2, z = z v1 + z v2\<rparr>"

definition Vector3Subtract :: "Vector3 \<Rightarrow> Vector3 \<Rightarrow> Vector3" where
  "Vector3Subtract v1 v2 = \<lparr>x = x v1 - x v2, y = y v1 - y v2, z = z v1 - z v2\<rparr>"

definition Vector3Scale :: "Vector3 \<Rightarrow> real \<Rightarrow> Vector3" where
  "Vector3Scale v scalar = \<lparr>x = x v * scalar, y = y v * scalar, z = z v * scalar\<rparr>"

definition Vector3Negate :: "Vector3 \<Rightarrow> Vector3" where
  "Vector3Negate v = \<lparr>x = - x v, y = - y v, z = - z v\<rparr>"

definition Vector3DotProduct :: "Vector3 \<Rightarrow> Vector3 \<Rightarrow> real" where
  "Vector3DotProduct v1 v2 = x v1 * x v2 + y v1 * y v2 + z v1 * z v2"

definition Vector3Length :: "Vector3 \<Rightarrow> real" where
  "Vector3Length v = sqrt (x v * x v + y v * y v + z v * z v)"

text \<open>
  Modelled from the spec: \<^verbatim>\<open>Vector3Normalize\<close> is not under \<^verbatim>\<open>src/\<close>. The spec fixes
  the normalisation of the zero vector as the zero vector; raymath does the same: it
  divides by the length only when the length is not zero and returns its argument
  unchanged otherwise.
\<close>

definition Vector3Normalize :: "Vector3 \<Rightarrow> Vector3" where
  "Vector3Normalize v =
     (let len = Vector3Length v in
      if len \<noteq> 0 then
        (let ilength = 1 / len in
         \<lparr>x = x v * ilength, y = y v * ilength, z = z v * ilength\<rparr>)
      else v)"

text \<open>
  Modelled from the spec: \<^verbatim>\<open>Vector3Reflect\<close> is not under \<^verbatim>\<open>src/\<close>. The spec has the
  boundary handler reflect the velocity about a normal; raymath computes the reflection
  of \<open>v\<close> about \<open>normal\<close> as \<open>v - 2 (v \<cdot> normal) normal\<close>, component by component.
\<close>

definition Vector3Reflect :: "Vector3 \<Rightarrow> Vector3 \<Rightarrow> Vector3" where
  "Vector3Reflect v normal =
     (let dotProduct = Vector3DotProduct v normal in
      \<lparr>x = x v - (2 * x normal) * dotProduct,
       y = y v - (2 * y normal) * dotProduct,
       z = z v - (2 * z normal) * dotProduct\<rparr>)"

subsection \<open>Constants and the particle\<close>

text \<open>
  Modelled from the spec: \<^verbatim>\<open>PI\<close> is a macro of raylib, not under \<^verbatim>\<open>src/\<close>; it is the
  \<open>\<pi>\<close> of the spec's kernel normalisations. The other constants are those of lines 18 to 28.
\<close>

definition PI :: real where
  "PI = pi"

definition sphereSize :: real where
  "sphereSize = 40"

definition sampleRadius :: real where
  "sampleRadius = 12"

definition restDensity :: real where
  "restDensity = 1 / 10000"

definition gasConstant :: real where
  "gasConstant = 100"

definition viscosity :: real where
  "viscosity = 1 / 100"

definition surfaceTension :: real where
  "surfaceTension = 50"

record Particle =
  position :: Vector3
  velocity :: Vector3
  acceleration :: Vector3
  mass :: real
  density :: real
  pressure :: real
  colorGradient :: Vector3

subsection \<open>Smoothing kernels\<close>

text \<open>
  Every kernel first computes \<^verbatim>\<open>magnitude = Vector3Length(r)\<close> and then evaluates a
  piecewise expression in \<^verbatim>\<open>magnitude\<close> and \<^verbatim>\<open>h\<close>. The piecewise expression is the
  \<open>..._at\<close> function (the radial profile); the kernel applies it to the length of \<open>r\<close>.
\<close>

definition W_poly6_at :: "real \<Rightarrow> real \<Rightarrow> real" where
  "W_poly6_at magnitude h =
     (if 0 \<le> magnitude \<and> magnitude \<le> h
      then (315 / (64 * PI * h ^ 9)) * (h * h - magnitude * magnitude) ^ 3
      else 0)"

definition W_poly6 :: "Vector3 \<Rightarrow> real \<Rightarrow> real" where
  "W_poly6 r h = (let magnitude = Vector3Length r in W_poly6_at magnitude h)"

definition W_poly6_Gradient_at :: "real \<Rightarrow> real \<Rightarrow> real" where
  "W_poly6_Gradient_at magnitude h =
     (if 0 \<le> magnitude \<and> magnitude \<le> h
      then (315 / (64 * PI * h ^ 9)) * (- 2 * magnitude) * 3
             * (h * h - magnitude * magnitude) ^ 2
      else 0)"

definition W_poly6_Gradient :: "Vector3 \<Rightarrow> real \<Rightarrow> real" where
  "W_poly6_Gradient r h = (let magnitude = Vector3Length r in W_poly6_Gradient_at magnitude h)"

definition W_poly6_Laplacian_at :: "real \<Rightarrow> real \<Rightarrow> real" where
  "W_poly6_Laplacian_at magnitude h =
     (if 0 \<le> magnitude \<and> magnitude \<le> h
      then (315 / (64 * PI * h ^ 9)) * 6 * (h * h - magnitude * magnitude)
             * (5 * magnitude * magnitude - h * h)
      else 0)"

definition W_poly6_Laplacian :: "Vector3 \<Rightarrow> real \<Rightarrow> real" where
  "W_poly6_Laplacian r h = (let magnitude = Vector3Length r in W_poly6_Laplacian_at magnitude h)"

definition W_viscosity_Laplacian_at :: "real \<Rightarrow> real \<Rightarrow> real" where
  "W_viscosity_Laplacian_at magnitude h =
     (if 0 \<le> magnitude \<and> magnitude \<le> h
      then (45 / (PI * h ^ 6)) * (h - magnitude)
      else 0)"

definition W_viscosity_Laplacian :: "Vector3 \<Rightarrow> real \<Rightarrow> real" where
  "W_viscosity_Laplacian r h =
     (let magnitude = Vector3Length r in W_viscosity_Laplacian_at magnitude h)"

definition W_spiky_at :: "real \<Rightarrow> real \<Rightarrow> real" where
  "W_spiky_at magnitude h =
     (if 0 \<le> magnitude \<and> magnitude \<le> h
      then (15 / (PI * h ^ 6)) * (h - magnitude) ^ 3
      else 0)"

definition W_spiky :: "Vector3 \<Rightarrow> real \<Rightarrow> real" where
  "W_spiky r h = (let magnitude = Vector3Length r in W_spiky_at magnitude h)"

definition W_spiky_Gradient_at :: "real \<Rightarrow> real \<Rightarrow> real" where
  "W_spiky_Gradient_at magnitude h =
     (if 0 \<le> magnitude \<and> magnitude \<le> h
      then (15 / (PI * h ^ 6)) * (- 1) * 3 * (h - magnitude) ^ 2
      else 0)"

definition W_spiky_Gradient :: "Vector3 \<Rightarrow> real \<Rightarrow> real" where
  "W_spiky_Gradient r h = (let magnitude = Vector3Length r in W_spiky_Gradient_at magnitude h)"

subsection \<open>Samplers\<close>

text \<open>
  Each sampler takes a particle by value and loops over the whole particle array with an
  accumulator. The array is the first argument; the loop is a left fold in index order.
\<close>

definition sampleDensity :: "Particle list \<Rightarrow> Particle \<Rightarrow> real" where
  "sampleDensity particles particle =
     foldl (\<lambda>acc p. acc + mass p
              * W_poly6 (Vector3Subtract (position particle) (position p)) sampleRadius)
       0 particles"

definition samplePressure :: "Particle \<Rightarrow> real" where
  "samplePressure particle = gasConstant * (density particle - restDensity)"

text \<open>
  The summand of the loop in \<^verbatim>\<open>sampleColorGradient\<close> for the array element \<open>p\<close>. The
  quotient \<open>1 / density p\<close> is the real quotient: where \<open>density p = 0\<close> the code has an
  infinity or a NaN and this value is not the code's; \<open>colorGradientTerm_checked\<close> below
  returns \<open>None\<close> there.
\<close>

definition colorGradientTerm :: "Particle \<Rightarrow> Particle \<Rightarrow> Vector3" where
  "colorGradientTerm particle p =
     (let r = Vector3Subtract (position p) (position particle) in
      Vector3Scale (Vector3Normalize r)
        (mass p * (1 / density p) * W_poly6_Gradient r sampleRadius))"

definition sampleColorGradient :: "Particle list \<Rightarrow> Particle \<Rightarrow> Vector3" where
  "sampleColorGradient particles particle =
     foldl (\<lambda>acc p. Vector3Add acc (colorGradientTerm particle p)) Vector3Zero particles"

definition sampleColorDivergence :: "Particle list \<Rightarrow> Particle \<Rightarrow> Vector3" where
  "sampleColorDivergence particles particle =
     foldl (\<lambda>acc p. Vector3Add acc
              (Vector3Scale (colorGradient p)
                 (mass p * (1 / density p)
                    * W_poly6_Laplacian (Vector3Subtract (position particle) (position p))
                        sampleRadius)))
       Vector3Zero particles"

text \<open>
  The vector that the loop of \<^verbatim>\<open>samplePressureForce\<close> subtracts from the accumulator
  for the array element \<open>p\<close>.
\<close>

definition pressureForceTerm :: "Particle \<Rightarrow> Particle \<Rightarrow> Vector3" where
  "pressureForceTerm particle p =
     (let r = Vector3Subtract (position particle) (position p) in
      Vector3Scale (Vector3Normalize r)
        (mass p * (pressure particle + pressure p) / (2 * density p)
           * W_spiky_Gradient r sampleRadius))"

definition samplePressureForce :: "Particle list \<Rightarrow> Particle \<Rightarrow> Vector3" where
  "samplePressureForce particles particle =
     foldl (\<lambda>acc p. Vector3Subtract acc (pressureForceTerm particle p)) Vector3Zero particles"

definition sampleViscosityForce :: "Particle list \<Rightarrow> Particle \<Rightarrow> Vector3" where
  "sampleViscosityForce particles particle =
     foldl (\<lambda>acc p. Vector3Add acc
              (Vector3Scale (Vector3Subtract (velocity p) (velocity particle))
                 (viscosity * mass p * (1 / density p)
                    * W_viscosity_Laplacian (Vector3Subtract (position particle) (position p))
                        sampleRadius)))
       Vector3Zero particles"

definition sampleSurfaceTractionForce :: "Particle list \<Rightarrow> Particle \<Rightarrow> Vector3" where
  "sampleSurfaceTractionForce particles particle =
     Vector3Scale (Vector3Normalize (colorGradient particle))
       (- surfaceTension * Vector3Length (sampleColorDivergence particles particle))"

subsection \<open>The simulation step\<close>

text \<open>
  \<^verbatim>\<open>for (int i = 0; i < numParticles; i++) particles[i] = body(particles, particles[i])\<close>:
  an in-place loop over the array. The body sees the array as it is when particle \<open>i\<close>
  is reached, that is with the particles before \<open>i\<close> already overwritten.
\<close>

definition forEachParticle ::
  "(Particle list \<Rightarrow> Particle \<Rightarrow> Particle) \<Rightarrow> Particle list \<Rightarrow> Particle list" where
  "forEachParticle body particles =
     foldl (\<lambda>ps i. ps[i := body ps (ps ! i)]) particles [0..<length particles]"

definition densityPass :: "Particle list \<Rightarrow> Particle list" where
  "densityPass = forEachParticle (\<lambda>ps p. p\<lparr>density := sampleDensity ps p\<rparr>)"

definition pressurePass :: "Particle list \<Rightarrow> Particle list" where
  "pressurePass = forEachParticle (\<lambda>ps p. p\<lparr>pressure := samplePressure p\<rparr>)"

definition colorGradientPass :: "Particle list \<Rightarrow> Particle list" where
  "colorGradientPass = forEachParticle (\<lambda>ps p. p\<lparr>colorGradient := sampleColorGradient ps p\<rparr>)"

text \<open>Lines 187 to 189: the local variable \<^verbatim>\<open>netForce\<close> of the force loop.\<close>

definition netForce :: "Particle list \<Rightarrow> Particle \<Rightarrow> Vector3" where
  "netForce particles particle =
     (let force = Vector3Add (samplePressureForce particles particle)
                    (Vector3Scale \<lparr>x = 0, y = 1, z = 0\<rparr> (- (1 / 10) * mass particle));
          force = Vector3Add force (sampleViscosityForce particles particle);
          force = Vector3Add force (sampleSurfaceTractionForce particles particle)
      in force)"

text \<open>
  Lines 186 to 191. The quotient \<open>1 / density p\<close> is the real quotient: it is the code's
  value (up to rounding) where the density is not zero; where it is zero the code has an
  infinity or a NaN, and nothing is stated about the acceleration.
\<close>

definition forcePass :: "Particle list \<Rightarrow> Particle list" where
  "forcePass = forEachParticle
     (\<lambda>ps p. p\<lparr>acceleration := Vector3Scale (netForce ps p) (1 / density p)\<rparr>)"

text \<open>Line 193: the velocity update of the integration loop.\<close>

definition accelerate :: "real \<Rightarrow> Particle \<Rightarrow> Particle" where
  "accelerate deltaTime p =
     p\<lparr>velocity := Vector3Add (velocity p) (Vector3Scale (acceleration p) deltaTime)\<rparr>"

text \<open>Lines 194 to 198: the boundary handler of the integration loop.\<close>

definition boundaryHandler :: "Particle \<Rightarrow> Particle" where
  "boundaryHandler p =
     (if Vector3Length (position p) \<ge> sphereSize - 1 then
        (if Vector3DotProduct (position p) (velocity p) > 0
         then p\<lparr>velocity :=
                  Vector3Scale
                    (Vector3Reflect (velocity p) (Vector3Negate (Vector3Normalize (position p))))
                    (8 / 10)\<rparr>
         else p)
      else p)"

text \<open>Line 199: the position update of the integration loop.\<close>

definition advance :: "real \<Rightarrow> Particle \<Rightarrow> Particle" where
  "advance deltaTime p =
     p\<lparr>position := Vector3Add (position p) (Vector3Scale (velocity p) deltaTime)\<rparr>"

definition integratePass :: "real \<Rightarrow> Particle list \<Rightarrow> Particle list" where
  "integratePass deltaTime = forEachParticle
     (\<lambda>ps p. advance deltaTime (boundaryHandler (accelerate deltaTime p)))"

definition updateParticles :: "real \<Rightarrow> Particle list \<Rightarrow> Particle list" where
  "updateParticles deltaTime particles =
     integratePass deltaTime
       (forcePass (colorGradientPass (pressurePass (densityPass particles))))"

text \<open>The array after the three field passes of a step (lines 182 to 184), on which the force
  pass then runs.\<close>

definition fieldsOf :: "Particle list \<Rightarrow> Particle list" where
  "fieldsOf ps = colorGradientPass (pressurePass (densityPass ps))"

subsection \<open>The driver\<close>

text \<open>
  Lines 219 to 223 of \<^verbatim>\<open>main\<close>: the array is a zero-initialised global; every particle
  gets a position drawn from the random generator (here: given), zero velocity and
  mass \<open>1\<close>.
\<close>

definition initParticle :: "Vector3 \<Rightarrow> Particle" where
  "initParticle pos =
     \<lparr>position = pos, velocity = Vector3Zero, acceleration = Vector3Zero, mass = 1,
      density = 0, pressure = 0, colorGradient = Vector3Zero\<rparr>"

definition initParticles :: "Vector3 list \<Rightarrow> Particle list" where
  "initParticles positions = map initParticle positions"

text \<open>
  The frame loop of \<^verbatim>\<open>main\<close> runs until the window is closed; the number of frames is
  decided by the environment and is the first argument. Each frame calls
  \<^verbatim>\<open>updateParticles(0.04f)\<close>; rendering reads the positions and changes nothing.
\<close>

fun mainLoop :: "nat \<Rightarrow> Particle list \<Rightarrow> Particle list" where
  "mainLoop 0 particles = particles"
| "mainLoop (Suc frames) particles = mainLoop frames (updateParticles (4 / 100) particles)"

subsection \<open>Divisions with the divisor checked\<close>

text \<open>
  IEEE division by zero yields an infinity or a NaN, which is no real number, whereas the
  real quotient \<open>a / 0\<close> of HOL is \<open>0\<close>. The checked division returns \<open>None\<close> where the
  divisor is zero, so \<open>None\<close> stands for a result that is an infinity or a NaN in the
  code. The colour-gradient summand is written a second time with every division
  checked: the same expressions as \<open>Vector3Normalize\<close>, \<open>W_poly6_Gradient\<close> and
  \<open>colorGradientTerm\<close>, with \<open>None\<close> passed on.
\<close>

definition fdiv :: "real \<Rightarrow> real \<Rightarrow> real option" where
  "fdiv a b = (if b = 0 then None else Some (a / b))"

text \<open>
  Modelled from the spec: \<^verbatim>\<open>Vector3Normalize\<close> of raymath (not under \<^verbatim>\<open>src/\<close>) with its
  division checked; the zero vector is returned as it is, without a division.
\<close>

definition Vector3Normalize_checked :: "Vector3 \<Rightarrow> Vector3 option" where
  "Vector3Normalize_checked v =
     (let len = Vector3Length v in
      if len \<noteq> 0 then
        Option.bind (fdiv 1 len)
          (\<lambda>ilength. Some \<lparr>x = x v * ilength, y = y v * ilength, z = z v * ilength\<rparr>)
      else Some v)"

definition W_poly6_Gradient_checked :: "Vector3 \<Rightarrow> real \<Rightarrow> real option" where
  "W_poly6_Gradient_checked r h =
     (let magnitude = Vector3Length r in
      if 0 \<le> magnitude \<and> magnitude \<le> h
      then Option.bind (fdiv 315 (64 * PI * h ^ 9))
             (\<lambda>c. Some (c * (- 2 * magnitude) * 3 * (h * h - magnitude * magnitude) ^ 2))
      else Some 0)"

definition colorGradientTerm_checked :: "Particle \<Rightarrow> Particle \<Rightarrow> Vector3 option" where
  "colorGradientTerm_checked particle p =
     (let r = Vector3Subtract (position p) (position particle) in
      Option.bind (Vector3Normalize_checked r) (\<lambda>n.
      Option.bind (fdiv 1 (density p)) (\<lambda>inverse_density.
      Option.bind (W_poly6_Gradient_checked r sampleRadius) (\<lambda>w.
        Some (Vector3Scale n (mass p * inverse_density * w))))))"

subsection \<open>The arrays a sampler is called on\<close>

text \<open>
  The array after the first \<open>k\<close> iterations of an in-place loop: the array that the body
  sees when the loop index is \<open>k\<close>.
\<close>

definition loopArray ::
  "(Particle list \<Rightarrow> Particle \<Rightarrow> Particle) \<Rightarrow> nat \<Rightarrow> Particle list \<Rightarrow> Particle list" where
  "loopArray body k particles = foldl (\<lambda>ps i. ps[i := body ps (ps ! i)]) particles [0..<k]"

text \<open>
  A run of the program starts from \<open>initParticles positions\<close> and has completed \<open>frames\<close>
  frames when the next call of \<^verbatim>\<open>updateParticles\<close> begins. In that call
  \<^verbatim>\<open>sampleColorGradient\<close> is called at loop index \<open>k\<close> of the colour-gradient loop (line
  184) and \<^verbatim>\<open>samplePressureForce\<close> at loop index \<open>k\<close> of the force loop (lines 186 to
  191), on these arrays.
\<close>

definition colorGradientLoopArray :: "nat \<Rightarrow> Vector3 list \<Rightarrow> nat \<Rightarrow> Particle list" where
  "colorGradientLoopArray frames positions k =
     loopArray (\<lambda>ps p. p\<lparr>colorGradient := sampleColorGradient ps p\<rparr>) k
       (pressurePass (densityPass (mainLoop frames (initParticles positions))))"

definition forceLoopArray :: "nat \<Rightarrow> Vector3 list \<Rightarrow> nat \<Rightarrow> Particle list" where
  "forceLoopArray frames positions k =
     loopArray (\<lambda>ps p. p\<lparr>acceleration := Vector3Scale (netForce ps p) (1 / density p)\<rparr>) k
       (fieldsOf (mainLoop frames (initParticles positions)))"

subsection \<open>Sample configurations\<close>

text \<open>
  Concrete inputs on which the theorems below are evaluated: a particle at distance
  \<open>40\<close> from the origin (beyond \<open>sphereSize - 1\<close>) that moves outward with speed \<open>5\<close>,
  and the same particle moving inward.
\<close>

definition outwardParticle :: Particle where
  "outwardParticle = (initParticle \<lparr>x = 40, y = 0, z = 0\<rparr>)\<lparr>velocity := \<lparr>x = 3, y = 4, z = 0\<rparr>\<rparr>"

definition inwardParticle :: Particle where
  "inwardParticle = (initParticle \<lparr>x = 40, y = 0, z = 0\<rparr>)\<lparr>velocity := \<lparr>x = - 3, y = 4, z = 0\<rparr>\<rparr>"

section \<open>Properties\<close>

subsection \<open>In-place loops\<close>

text \<open>
  An in-place loop whose body reads the array only through fields that the body itself
  does not write computes the same array as a map over the array it started from.
  The fields read are given by \<open>key\<close>, which forgets the written field.
\<close>

lemma foldl_inplace:
  assumes dep: "\<And>qs. map key qs = map key ps \<Longrightarrow> body qs = body ps"
      and keep: "\<And>p. key (body ps p) = key p"
  shows "n \<le> length ps \<Longrightarrow>
         foldl (\<lambda>qs i. qs[i := body qs (qs ! i)]) ps [0..<n]
           = map (body ps) (take n ps) @ drop n ps"
proof (induction n)
  case 0
  then show ?case by simp
next
  case (Suc n)
  let ?qs = "map (body ps) (take n ps) @ drop n ps"
  from Suc have n: "n < length ps" by simp
  have IH: "foldl (\<lambda>qs i. qs[i := body qs (qs ! i)]) ps [0..<n] = ?qs"
    using Suc by simp
  have "map key ?qs = map key (take n ps) @ map key (drop n ps)"
    by (simp add: keep o_def)
  then have k: "map key ?qs = map key ps"
    by (metis append_take_drop_id map_append)
  have b: "body ?qs = body ps" using dep [OF k] .
  have e: "?qs ! n = ps ! n" using n by (simp add: nth_append)
  have "?qs[n := body ps (ps ! n)] = map (body ps) (take (Suc n) ps) @ drop (Suc n) ps"
    using n by (auto intro!: nth_equalityI simp: nth_append nth_list_update less_Suc_eq)
  then show ?case using IH b e by simp
qed

lemma forEachParticle_map:
  assumes "\<And>qs. map key qs = map key ps \<Longrightarrow> body qs = body ps"
      and "\<And>p. key (body ps p) = key p"
  shows "forEachParticle body ps = map (body ps) ps"
  unfolding forEachParticle_def
  using foldl_inplace [where key = key and body = body and ps = ps and n = "length ps", OF assms]
  by simp

lemma foldl_key_map:
  assumes "\<And>a q. g a q = g a (key q)"
  shows "foldl g a qs = foldl g a (map key qs)"
proof (induction qs arbitrary: a)
  case Nil
  show ?case by simp
next
  case (Cons q qs)
  have "foldl g a (q # qs) = foldl g (g a (key q)) qs"
    using assms [of a q] by simp
  also have "\<dots> = foldl g (g a (key q)) (map key qs)" by (rule Cons.IH)
  finally show ?case by simp
qed

lemma foldl_key_cong:
  assumes "\<And>a q. g a q = g a (key q)" and "map key qs = map key ps"
  shows "foldl g a qs = foldl g a ps"
  using foldl_key_map [of g key a qs, OF assms(1)] foldl_key_map [of g key a ps, OF assms(1)]
        assms(2)
  by simp

lemma sampleDensity_key:
  assumes "map (\<lambda>q. q\<lparr>density := 0\<rparr>) qs = map (\<lambda>q. q\<lparr>density := 0\<rparr>) ps"
  shows "sampleDensity qs p = sampleDensity ps p"
  unfolding sampleDensity_def
  by (rule foldl_key_cong [where key = "\<lambda>q. q\<lparr>density := 0\<rparr>", OF _ assms]) simp

lemma densityPass_map:
  "densityPass ps = map (\<lambda>p. p\<lparr>density := sampleDensity ps p\<rparr>) ps"
  unfolding densityPass_def
proof (rule forEachParticle_map [where key = "\<lambda>q. q\<lparr>density := 0\<rparr>"])
  fix qs assume "map (\<lambda>q. q\<lparr>density := 0\<rparr>) qs = map (\<lambda>q. q\<lparr>density := 0\<rparr>) ps"
  then have "\<And>p. sampleDensity qs p = sampleDensity ps p" by (rule sampleDensity_key)
  then show "(\<lambda>p. p\<lparr>density := sampleDensity qs p\<rparr>) = (\<lambda>p. p\<lparr>density := sampleDensity ps p\<rparr>)"
    by simp
next
  fix p show "p\<lparr>density := sampleDensity ps p, density := 0\<rparr> = p\<lparr>density := 0\<rparr>" by simp
qed

subsection \<open>The passes of a step as maps\<close>

lemma pressurePass_map:
  "pressurePass ps = map (\<lambda>p. p\<lparr>pressure := samplePressure p\<rparr>) ps"
  unfolding pressurePass_def
  by (rule forEachParticle_map [where key = "\<lambda>q. ()"]) simp_all

lemma sampleColorGradient_key:
  assumes "map (\<lambda>q. q\<lparr>colorGradient := Vector3Zero\<rparr>) qs
             = map (\<lambda>q. q\<lparr>colorGradient := Vector3Zero\<rparr>) ps"
  shows "sampleColorGradient qs p = sampleColorGradient ps p"
  unfolding sampleColorGradient_def
  by (rule foldl_key_cong [where key = "\<lambda>q. q\<lparr>colorGradient := Vector3Zero\<rparr>", OF _ assms])
     (simp add: colorGradientTerm_def)

lemma colorGradientPass_map:
  "colorGradientPass ps = map (\<lambda>p. p\<lparr>colorGradient := sampleColorGradient ps p\<rparr>) ps"
  unfolding colorGradientPass_def
proof (rule forEachParticle_map [where key = "\<lambda>q. q\<lparr>colorGradient := Vector3Zero\<rparr>"])
  fix qs
  assume "map (\<lambda>q. q\<lparr>colorGradient := Vector3Zero\<rparr>) qs
            = map (\<lambda>q. q\<lparr>colorGradient := Vector3Zero\<rparr>) ps"
  then have "\<And>p. sampleColorGradient qs p = sampleColorGradient ps p"
    by (rule sampleColorGradient_key)
  then show "(\<lambda>p. p\<lparr>colorGradient := sampleColorGradient qs p\<rparr>)
               = (\<lambda>p. p\<lparr>colorGradient := sampleColorGradient ps p\<rparr>)"
    by simp
next
  fix p
  show "p\<lparr>colorGradient := sampleColorGradient ps p, colorGradient := Vector3Zero\<rparr>
          = p\<lparr>colorGradient := Vector3Zero\<rparr>"
    by simp
qed

lemma netForce_key:
  assumes k: "map (\<lambda>q. q\<lparr>acceleration := Vector3Zero\<rparr>) qs
             = map (\<lambda>q. q\<lparr>acceleration := Vector3Zero\<rparr>) ps"
  shows "netForce qs p = netForce ps p"
proof -
  have 1: "samplePressureForce qs p = samplePressureForce ps p"
    unfolding samplePressureForce_def
    by (rule foldl_key_cong [where key = "\<lambda>q. q\<lparr>acceleration := Vector3Zero\<rparr>", OF _ k])
       (simp add: pressureForceTerm_def)
  have 2: "sampleViscosityForce qs p = sampleViscosityForce ps p"
    unfolding sampleViscosityForce_def
    by (rule foldl_key_cong [where key = "\<lambda>q. q\<lparr>acceleration := Vector3Zero\<rparr>", OF _ k]) simp
  have 3: "sampleColorDivergence qs p = sampleColorDivergence ps p"
    unfolding sampleColorDivergence_def
    by (rule foldl_key_cong [where key = "\<lambda>q. q\<lparr>acceleration := Vector3Zero\<rparr>", OF _ k]) simp
  show ?thesis
    by (simp add: netForce_def sampleSurfaceTractionForce_def 1 2 3)
qed

lemma forcePass_map:
  "forcePass ps
     = map (\<lambda>p. p\<lparr>acceleration := Vector3Scale (netForce ps p) (1 / density p)\<rparr>) ps"
  unfolding forcePass_def
proof (rule forEachParticle_map [where key = "\<lambda>q. q\<lparr>acceleration := Vector3Zero\<rparr>"])
  fix qs
  assume "map (\<lambda>q. q\<lparr>acceleration := Vector3Zero\<rparr>) qs
            = map (\<lambda>q. q\<lparr>acceleration := Vector3Zero\<rparr>) ps"
  then have "\<And>p. netForce qs p = netForce ps p" by (rule netForce_key)
  then show "(\<lambda>p. p\<lparr>acceleration := Vector3Scale (netForce qs p) (1 / density p)\<rparr>)
               = (\<lambda>p. p\<lparr>acceleration := Vector3Scale (netForce ps p) (1 / density p)\<rparr>)"
    by simp
next
  fix p
  show "p\<lparr>acceleration := Vector3Scale (netForce ps p) (1 / density p),
           acceleration := Vector3Zero\<rparr> = p\<lparr>acceleration := Vector3Zero\<rparr>"
    by simp
qed

lemma integratePass_map:
  "integratePass dt ps = map (\<lambda>p. advance dt (boundaryHandler (accelerate dt p))) ps"
  unfolding integratePass_def
  by (rule forEachParticle_map [where key = "\<lambda>q. ()"]) simp_all

lemma updateParticles_unfold:
  "updateParticles dt ps
     = map (\<lambda>p. advance dt (boundaryHandler (accelerate dt p))) (forcePass (fieldsOf ps))"
  by (simp add: updateParticles_def integratePass_map fieldsOf_def)

lemma length_passes [simp]:
  "length (densityPass ps) = length ps"
  "length (pressurePass ps) = length ps"
  "length (colorGradientPass ps) = length ps"
  "length (forcePass ps) = length ps"
  "length (integratePass dt ps) = length ps"
  by (simp_all add: densityPass_map pressurePass_map colorGradientPass_map forcePass_map
        integratePass_map)

lemma mass_integrate [simp]: "mass (advance dt (boundaryHandler (accelerate dt p))) = mass p"
  by (simp add: advance_def boundaryHandler_def accelerate_def)

lemma map_mass_passes:
  "map mass (densityPass ps) = map mass ps"
  "map mass (pressurePass ps) = map mass ps"
  "map mass (colorGradientPass ps) = map mass ps"
  "map mass (forcePass ps) = map mass ps"
  "map mass (integratePass dt ps) = map mass ps"
  by (simp_all add: densityPass_map pressurePass_map colorGradientPass_map forcePass_map
        integratePass_map o_def)

subsection \<open>Rules for evaluating the definitions\<close>

text \<open>
  The defining equations, collected for evaluating the step on concrete particle arrays
  with the simplifier. A vector on the first axis has the absolute value of its first
  component as length, which spares the square root.
\<close>

lemma Vector3Length_x_axis: "Vector3Length \<lparr>x = a, y = 0, z = 0\<rparr> = \<bar>a\<bar>"
  by (simp add: Vector3Length_def)

lemmas vec_defs = Vector3Zero_def Vector3Add_def Vector3Subtract_def Vector3Scale_def
  Vector3Negate_def Vector3DotProduct_def Vector3Normalize_def Vector3Reflect_def
  Vector3Length_x_axis

lemmas kernel_defs = W_poly6_def W_poly6_at_def W_poly6_Gradient_def W_poly6_Gradient_at_def
  W_poly6_Laplacian_def W_poly6_Laplacian_at_def W_viscosity_Laplacian_def
  W_viscosity_Laplacian_at_def W_spiky_def W_spiky_at_def W_spiky_Gradient_def
  W_spiky_Gradient_at_def sampleRadius_def PI_def

lemmas sampler_defs = sampleDensity_def samplePressure_def sampleColorGradient_def
  colorGradientTerm_def sampleColorDivergence_def samplePressureForce_def pressureForceTerm_def
  sampleViscosityForce_def sampleSurfaceTractionForce_def netForce_def
  gasConstant_def restDensity_def viscosity_def surfaceTension_def

lemmas step_defs = updateParticles_unfold fieldsOf_def densityPass_map pressurePass_map
  colorGradientPass_map forcePass_map advance_def boundaryHandler_def accelerate_def
  sphereSize_def initParticles_def initParticle_def

subsection \<open>Lengths of vectors\<close>

lemma Vector3Length_nonneg [simp]: "0 \<le> Vector3Length v"
  by (simp add: Vector3Length_def)

lemma Vector3Length_self [simp]: "Vector3Length (Vector3Subtract a a) = 0"
  by (simp add: Vector3Length_def Vector3Subtract_def)

lemma Vector3Length_Negate [simp]: "Vector3Length (Vector3Negate v) = Vector3Length v"
  by (simp add: Vector3Length_def Vector3Negate_def)

subsection \<open>Density\<close>

lemma density_integrate [simp]:
  "density (advance dt (boundaryHandler (accelerate dt p))) = density p"
  by (simp add: advance_def boundaryHandler_def accelerate_def)

lemma map_density_passes:
  "map density (densityPass ps) = map (sampleDensity ps) ps"
  "map density (pressurePass ps) = map density ps"
  "map density (colorGradientPass ps) = map density ps"
  "map density (forcePass ps) = map density ps"
  "map density (integratePass dt ps) = map density ps"
  by (simp_all add: densityPass_map pressurePass_map colorGradientPass_map forcePass_map
        integratePass_map o_def)

lemma map_density_updateParticles:
  "map density (updateParticles dt ps) = map (sampleDensity ps) ps"
  by (simp add: updateParticles_def map_density_passes)

lemma foldl_add_sum_list:
  "foldl (\<lambda>acc p. acc + f p) a ps = (a::real) + sum_list (map f ps)"
  by (induction ps arbitrary: a) (simp_all add: add.assoc)

lemma sampleDensity_sum_list:
  "sampleDensity ps p =
     sum_list (map (\<lambda>q. mass q * W_poly6 (Vector3Subtract (position p) (position q)) sampleRadius) ps)"
  unfolding sampleDensity_def by (simp add: foldl_add_sum_list)

lemma sum_list_map_nth:
  "sum_list (map f ps) = (\<Sum>j<length ps. (f (ps ! j) :: real))"
proof -
  have "sum_list (map f ps) = (\<Sum>j = 0..<length (map f ps). map f ps ! j)"
    by (rule sum_list_sum_nth)
  also have "\<dots> = (\<Sum>j = 0..<length ps. f (ps ! j))"
    by (rule sum.cong) simp_all
  finally show ?thesis by (simp add: atLeast0LessThan)
qed

text \<open>
  Claim C1. For every particle \<open>i\<close>, the density pass of a step sets \<open>density[i]\<close> to the
  sum over all particles \<open>j\<close>, the particle \<open>i\<close> itself included, of
  \<open>mass[j] * W_poly6 (position[i] - position[j], sampleRadius)\<close>, on the positions and
  masses the array has before the step; no later pass of the step changes that density.
\<close>

theorem density_pass_sum:
  assumes "i < length ps"
  shows "density (densityPass ps ! i)
           = (\<Sum>j<length ps. mass (ps ! j)
                * W_poly6 (Vector3Subtract (position (ps ! i)) (position (ps ! j))) sampleRadius)
         \<and> density (updateParticles dt ps ! i) = density (densityPass ps ! i)"
proof -
  have a: "density (densityPass ps ! i) = sampleDensity ps (ps ! i)"
    using assms nth_map [of i "densityPass ps" density] map_density_passes(1) [of ps]
    by simp
  have b: "density (updateParticles dt ps ! i) = sampleDensity ps (ps ! i)"
    using assms nth_map [of i "updateParticles dt ps" density]
      map_density_updateParticles [of dt ps] length_map [of density "updateParticles dt ps"]
    by simp
  show ?thesis
    by (simp add: a b sampleDensity_sum_list sum_list_map_nth)
qed

theorem density_pass_sum_witness:
  "(0::nat) < length (initParticles [\<lparr>x = 0, y = 0, z = 0\<rparr>, \<lparr>x = 1, y = 0, z = 0\<rparr>])
   \<and> density (updateParticles (4 / 100)
        (initParticles [\<lparr>x = 0, y = 0, z = 0\<rparr>, \<lparr>x = 1, y = 0, z = 0\<rparr>]) ! 0)
     = 315 / (64 * pi * 12 ^ 9) * 144 ^ 3 + 315 / (64 * pi * 12 ^ 9) * 143 ^ 3"
  using density_pass_sum [of 0 "initParticles [\<lparr>x = 0, y = 0, z = 0\<rparr>, \<lparr>x = 1, y = 0, z = 0\<rparr>]" "4 / 100"]
  by (simp add: initParticles_def initParticle_def W_poly6_def W_poly6_at_def
        Vector3Subtract_def Vector3Length_def sampleRadius_def PI_def lessThan_Suc)

lemma W_poly6_at_nonneg: "0 \<le> W_poly6_at m sampleRadius"
proof (cases "0 \<le> m \<and> m \<le> 12")
  case True
  then have "m * m \<le> 12 * 12" by (intro mult_mono) simp_all
  then have "0 \<le> (12 * 12 - m * m) ^ 3" by simp
  moreover have "0 \<le> 315 / (64 * pi * 12 ^ 9)" by simp
  ultimately have "0 \<le> 315 / (64 * pi * 12 ^ 9) * (12 * 12 - m * m) ^ 3"
    by (rule mult_nonneg_nonneg [rotated])
  with True show ?thesis by (simp add: W_poly6_at_def sampleRadius_def PI_def)
next
  case False
  then show ?thesis by (auto simp add: W_poly6_at_def sampleRadius_def)
qed

lemma W_poly6_nonneg: "0 \<le> W_poly6 r sampleRadius"
  by (simp add: W_poly6_def W_poly6_at_nonneg)

lemma W_poly6_self_pos: "0 < W_poly6 (Vector3Subtract a a) sampleRadius"
  by (simp add: W_poly6_def W_poly6_at_def sampleRadius_def PI_def)

lemma member_le_sum_list_real:
  fixes xs :: "real list"
  assumes "\<forall>v\<in>set xs. 0 \<le> v" and "u \<in> set xs"
  shows "u \<le> sum_list xs"
  using assms
proof (induction xs)
  case Nil
  then show ?case by simp
next
  case (Cons a xs)
  have nn: "0 \<le> sum_list xs" using Cons.prems(1) by (intro sum_list_nonneg) simp
  show ?case
  proof (cases "u = a")
    case True
    with nn show ?thesis by simp
  next
    case False
    with Cons.prems have "u \<in> set xs" by simp
    with Cons have "u \<le> sum_list xs" by simp
    moreover have "0 \<le> a" using Cons.prems(1) by simp
    ultimately show ?thesis by simp
  qed
qed

text \<open>
  Claim C2. For every particle array with at least one particle in which every mass is
  strictly positive, the density that \<^verbatim>\<open>sampleDensity\<close> computes for any particle of the
  array is strictly positive: the particle's own term
  \<open>mass * W_poly6 (0, sampleRadius)\<close> is strictly positive, and it is a lower bound of the
  sum because no term is negative.
\<close>

theorem sampleDensity_positive:
  assumes "particles \<noteq> []" and "\<forall>q\<in>set particles. 0 < mass q" and "p \<in> set particles"
  shows "0 < mass p * W_poly6 (Vector3Subtract (position p) (position p)) sampleRadius
         \<and> mass p * W_poly6 (Vector3Subtract (position p) (position p)) sampleRadius
             \<le> sampleDensity particles p
         \<and> 0 < sampleDensity particles p"
proof -
  let ?f = "\<lambda>q. mass q * W_poly6 (Vector3Subtract (position p) (position q)) sampleRadius"
  have self: "0 < ?f p"
    using assms(2,3) W_poly6_self_pos [of "position p"] by simp
  have nn: "\<forall>v\<in>set (map ?f particles). 0 \<le> v"
  proof
    fix v assume "v \<in> set (map ?f particles)"
    then obtain q where q: "q \<in> set particles" and v: "v = ?f q" by auto
    from q assms(2) have "0 \<le> mass q" by (simp add: less_imp_le)
    then show "0 \<le> v" unfolding v using W_poly6_nonneg by (rule mult_nonneg_nonneg)
  qed
  have "?f p \<in> set (map ?f particles)" using assms(3) by simp
  with nn have "?f p \<le> sum_list (map ?f particles)" by (rule member_le_sum_list_real)
  then have le: "?f p \<le> sampleDensity particles p" by (simp add: sampleDensity_sum_list)
  from self le show ?thesis by simp
qed

theorem sampleDensity_positive_witness:
  "initParticles [\<lparr>x = 0, y = 0, z = 0\<rparr>, \<lparr>x = 1, y = 0, z = 0\<rparr>] \<noteq> []
   \<and> list_all (\<lambda>q. 0 < mass q) (initParticles [\<lparr>x = 0, y = 0, z = 0\<rparr>, \<lparr>x = 1, y = 0, z = 0\<rparr>])
   \<and> initParticle \<lparr>x = 0, y = 0, z = 0\<rparr>
        \<in> set (initParticles [\<lparr>x = 0, y = 0, z = 0\<rparr>, \<lparr>x = 1, y = 0, z = 0\<rparr>])
   \<and> 0 < sampleDensity (initParticles [\<lparr>x = 0, y = 0, z = 0\<rparr>, \<lparr>x = 1, y = 0, z = 0\<rparr>])
           (initParticle \<lparr>x = 0, y = 0, z = 0\<rparr>)"
  using sampleDensity_positive [of "initParticles [\<lparr>x = 0, y = 0, z = 0\<rparr>, \<lparr>x = 1, y = 0, z = 0\<rparr>]"
          "initParticle \<lparr>x = 0, y = 0, z = 0\<rparr>"]
  by (simp add: initParticles_def initParticle_def)

subsection \<open>Frame of a step\<close>

text \<open>
  Claim C9. A step leaves every particle's mass as it was and keeps the number of
  particles: the masses of the array after the step are, index by index, the masses
  before it. The six other fields are the ones the passes write.
\<close>

theorem step_frame:
  "map mass (updateParticles dt ps) = map mass ps
   \<and> length (updateParticles dt ps) = length ps"
  by (simp add: updateParticles_def map_mass_passes)

subsection \<open>Integration and the boundary handler\<close>

lemma updateParticles_nth:
  assumes "i < length ps"
  shows "updateParticles dt ps ! i
           = advance dt (boundaryHandler (accelerate dt (forcePass (fieldsOf ps) ! i)))"
  using assms by (simp add: updateParticles_unfold fieldsOf_def)

lemma mainLoop_funpow: "mainLoop frames ps = (updateParticles (4 / 100) ^^ frames) ps"
  by (induction frames arbitrary: ps) (simp_all add: funpow_swap1)

text \<open>
  Claim C3. In the integration loop of a step, a particle whose distance from the origin
  is at least \<open>sphereSize - 1\<close> and whose velocity (after the acceleration has been added)
  has a positive dot product with its position gets that velocity replaced by its
  reflection about \<open>- normalize position\<close>, scaled by \<open>0.8\<close>; the boundary handler leaves
  every other particle as it is, and it never changes a position.
\<close>

theorem boundary_handler_reflects:
  "(sphereSize - 1 \<le> Vector3Length (position p)
      \<and> 0 < Vector3DotProduct (position p) (velocity p)
     \<longrightarrow> boundaryHandler p
          = p\<lparr>velocity := Vector3Scale
                 (Vector3Reflect (velocity p) (Vector3Negate (Vector3Normalize (position p))))
                 (8 / 10)\<rparr>)
   \<and> (\<not> (sphereSize - 1 \<le> Vector3Length (position p)
          \<and> 0 < Vector3DotProduct (position p) (velocity p))
     \<longrightarrow> boundaryHandler p = p)
   \<and> position (boundaryHandler p) = position p
   \<and> (i < length ps
     \<longrightarrow> velocity (updateParticles dt ps ! i)
          = velocity (boundaryHandler (accelerate dt (forcePass (fieldsOf ps) ! i))))"
  by (simp add: updateParticles_nth) (simp add: boundaryHandler_def advance_def)

theorem boundary_handler_reflects_witness:
  "sphereSize - 1 \<le> Vector3Length (position outwardParticle)
   \<and> 0 < Vector3DotProduct (position outwardParticle) (velocity outwardParticle)
   \<and> boundaryHandler outwardParticle
       = outwardParticle\<lparr>velocity := \<lparr>x = - (12 / 5), y = 16 / 5, z = 0\<rparr>\<rparr>
   \<and> \<not> 0 < Vector3DotProduct (position inwardParticle) (velocity inwardParticle)
   \<and> boundaryHandler inwardParticle = inwardParticle
   \<and> position (boundaryHandler outwardParticle) = \<lparr>x = 40, y = 0, z = 0\<rparr>
   \<and> (0::nat) < length [outwardParticle]
   \<and> velocity (updateParticles (4 / 100) [outwardParticle] ! 0)
       = \<lparr>x = - (12 / 5), y = (16 - 24576 * pi / 4375) / 5, z = 0\<rparr>"
proof -
  have a: "sphereSize - 1 \<le> Vector3Length (position outwardParticle)
           \<and> 0 < Vector3DotProduct (position outwardParticle) (velocity outwardParticle)"
    by (simp add: outwardParticle_def initParticle_def sphereSize_def vec_defs)
  have b: "\<not> (sphereSize - 1 \<le> Vector3Length (position inwardParticle)
           \<and> 0 < Vector3DotProduct (position inwardParticle) (velocity inwardParticle))"
    by (simp add: inwardParticle_def initParticle_def sphereSize_def vec_defs)
  have c: "(0::nat) < length [outwardParticle]" by simp
  note out = boundary_handler_reflects [of outwardParticle 0 "[outwardParticle]" "4 / 100"]
  note inw = boundary_handler_reflects [of inwardParticle 0 "[inwardParticle]" "4 / 100"]
  have 1: "boundaryHandler outwardParticle
             = outwardParticle\<lparr>velocity := \<lparr>x = - (12 / 5), y = 16 / 5, z = 0\<rparr>\<rparr>"
    using out a by (simp add: outwardParticle_def initParticle_def vec_defs)
  have 2: "boundaryHandler inwardParticle = inwardParticle"
    using inw b by simp
  have 3: "position (boundaryHandler outwardParticle) = \<lparr>x = 40, y = 0, z = 0\<rparr>"
    using out by (simp add: outwardParticle_def initParticle_def)
  have 4: "velocity (updateParticles (4 / 100) [outwardParticle] ! 0)
             = \<lparr>x = - (12 / 5), y = (16 - 24576 * pi / 4375) / 5, z = 0\<rparr>"
    using out c
    by (simp add: outwardParticle_def step_defs sampler_defs kernel_defs vec_defs Let_def)
  from a b 1 2 3 4 show ?thesis
    by (simp add: inwardParticle_def initParticle_def vec_defs)
qed

text \<open>
  Claim C4. For every particle, a step first adds \<open>acceleration * dt\<close> to the velocity,
  then applies the boundary handler to the particle with that velocity, and only then
  adds \<open>velocity * dt\<close> to the position, with the velocity the boundary handler left.
  The driver calls the step with \<open>dt = 0.04\<close> in every frame: \<open>frames\<close> frames are
  \<open>frames\<close> applications of \<open>updateParticles 0.04\<close>.
\<close>

theorem integration_order:
  "(i < length ps
     \<longrightarrow> updateParticles dt ps ! i
         = (let p0 = forcePass (fieldsOf ps) ! i;
                p1 = p0\<lparr>velocity := Vector3Add (velocity p0) (Vector3Scale (acceleration p0) dt)\<rparr>;
                p2 = boundaryHandler p1;
                p3 = p2\<lparr>position := Vector3Add (position p2) (Vector3Scale (velocity p2) dt)\<rparr>
            in p3))
   \<and> mainLoop frames ps = (updateParticles (4 / 100) ^^ frames) ps"
  by (simp add: updateParticles_nth mainLoop_funpow Let_def advance_def accelerate_def)

theorem integration_order_witness:
  "(0::nat) < length (initParticles [\<lparr>x = 0, y = 0, z = 0\<rparr>])
   \<and> updateParticles (4 / 100) (initParticles [\<lparr>x = 0, y = 0, z = 0\<rparr>]) ! 0
       = \<lparr>position = \<lparr>x = 0, y = - (6144 * pi / 109375), z = 0\<rparr>,
          velocity = \<lparr>x = 0, y = - (6144 * pi / 4375), z = 0\<rparr>,
          acceleration = \<lparr>x = 0, y = - (6144 * pi / 175), z = 0\<rparr>,
          mass = 1, density = 35 / (12288 * pi), pressure = 875 / (3072 * pi) - 1 / 100,
          colorGradient = \<lparr>x = 0, y = 0, z = 0\<rparr>\<rparr>
   \<and> mainLoop (Suc (Suc 0)) (initParticles [\<lparr>x = 0, y = 0, z = 0\<rparr>])
       = updateParticles (4 / 100)
           (updateParticles (4 / 100) (initParticles [\<lparr>x = 0, y = 0, z = 0\<rparr>]))"
proof -
  note t = integration_order [of 0 "initParticles [\<lparr>x = 0, y = 0, z = 0\<rparr>]" "4 / 100" "Suc (Suc 0)"]
  have l: "(0::nat) < length (initParticles [\<lparr>x = 0, y = 0, z = 0\<rparr>])"
    by (simp add: initParticles_def)
  have 1: "updateParticles (4 / 100) (initParticles [\<lparr>x = 0, y = 0, z = 0\<rparr>]) ! 0
       = \<lparr>position = \<lparr>x = 0, y = - (6144 * pi / 109375), z = 0\<rparr>,
          velocity = \<lparr>x = 0, y = - (6144 * pi / 4375), z = 0\<rparr>,
          acceleration = \<lparr>x = 0, y = - (6144 * pi / 175), z = 0\<rparr>,
          mass = 1, density = 35 / (12288 * pi), pressure = 875 / (3072 * pi) - 1 / 100,
          colorGradient = \<lparr>x = 0, y = 0, z = 0\<rparr>\<rparr>"
    using t [THEN conjunct1, rule_format, OF l]
    by (simp add: step_defs sampler_defs kernel_defs vec_defs Let_def)
  have 2: "mainLoop (Suc (Suc 0)) (initParticles [\<lparr>x = 0, y = 0, z = 0\<rparr>])
       = updateParticles (4 / 100)
           (updateParticles (4 / 100) (initParticles [\<lparr>x = 0, y = 0, z = 0\<rparr>]))"
    using t [THEN conjunct2] by (simp only: funpow.simps o_apply id_apply)
  from l 1 2 show ?thesis by blast
qed

lemma Vector3Length_Scale:
  assumes "0 \<le> s"
  shows "Vector3Length (Vector3Scale v s) = s * Vector3Length v"
proof -
  have "x v * s * (x v * s) + y v * s * (y v * s) + z v * s * (z v * s)
          = s\<^sup>2 * (x v * x v + y v * y v + z v * z v)"
    by (simp add: power2_eq_square algebra_simps)
  then have "Vector3Length (Vector3Scale v s) = sqrt (s\<^sup>2 * (x v * x v + y v * y v + z v * z v))"
    by (simp add: Vector3Length_def Vector3Scale_def)
  also have "\<dots> = \<bar>s\<bar> * Vector3Length v"
    by (simp add: real_sqrt_mult Vector3Length_def)
  finally show ?thesis using assms by simp
qed

lemma Vector3Length_sq:
  "Vector3Length v * Vector3Length v = x v * x v + y v * y v + z v * z v"
proof -
  have "0 \<le> x v * x v + y v * y v + z v * z v" by simp
  then show ?thesis unfolding Vector3Length_def by simp
qed

lemma inward_normal_unit:
  assumes "Vector3Length u \<noteq> 0"
  shows "Vector3DotProduct (Vector3Negate (Vector3Normalize u)) (Vector3Negate (Vector3Normalize u)) = 1"
proof -
  let ?l = "Vector3Length u"
  have "Vector3DotProduct (Vector3Negate (Vector3Normalize u)) (Vector3Negate (Vector3Normalize u))
          = (x u * x u + y u * y u + z u * z u) / (?l * ?l)"
    using assms
    by (simp add: Vector3DotProduct_def Vector3Negate_def Vector3Normalize_def Let_def
          add_divide_distrib)
  also have "\<dots> = 1" using assms by (simp add: Vector3Length_sq [symmetric])
  finally show ?thesis .
qed

lemma Vector3Length_Reflect:
  assumes "Vector3DotProduct n n = 1"
  shows "Vector3Length (Vector3Reflect v n) = Vector3Length v"
proof -
  let ?d = "Vector3DotProduct v n"
  have "(x v - 2 * x n * ?d) * (x v - 2 * x n * ?d)
        + (y v - 2 * y n * ?d) * (y v - 2 * y n * ?d)
        + (z v - 2 * z n * ?d) * (z v - 2 * z n * ?d)
        = (x v * x v + y v * y v + z v * z v) - 4 * ?d * ?d
          + 4 * ?d * ?d * Vector3DotProduct n n"
    by (simp add: Vector3DotProduct_def algebra_simps)
  also have "\<dots> = x v * x v + y v * y v + z v * z v"
    by (simp add: assms)
  finally show ?thesis
    by (simp add: Vector3Length_def Vector3Reflect_def Let_def)
qed

text \<open>
  Claim C10. Whenever the boundary handler reflects a particle's velocity (distance at
  least \<open>sphereSize - 1\<close>, positive dot product of position and velocity), the speed
  after the handler is exactly \<open>0.8\<close> times the speed before: the normal
  \<open>- normalize position\<close> has length \<open>1\<close>, and a reflection about a unit normal keeps the
  length.
\<close>

theorem reflection_speed:
  assumes "sphereSize - 1 \<le> Vector3Length (position p)"
      and "0 < Vector3DotProduct (position p) (velocity p)"
  shows "Vector3Length (velocity (boundaryHandler p)) = (8 / 10) * Vector3Length (velocity p)"
proof -
  from assms(1) have "Vector3Length (position p) \<noteq> 0" by (simp add: sphereSize_def)
  then have unit: "Vector3DotProduct (Vector3Negate (Vector3Normalize (position p)))
                     (Vector3Negate (Vector3Normalize (position p))) = 1"
    by (rule inward_normal_unit)
  have "velocity (boundaryHandler p)
          = Vector3Scale
              (Vector3Reflect (velocity p) (Vector3Negate (Vector3Normalize (position p))))
              (8 / 10)"
    using assms by (simp add: boundaryHandler_def)
  then show ?thesis
    by (simp add: Vector3Length_Scale Vector3Length_Reflect [OF unit])
qed

theorem reflection_speed_witness:
  "sphereSize - 1 \<le> Vector3Length (position outwardParticle)
   \<and> 0 < Vector3DotProduct (position outwardParticle) (velocity outwardParticle)
   \<and> Vector3Length (velocity outwardParticle) = 5
   \<and> Vector3Length (velocity (boundaryHandler outwardParticle)) = 4"
proof -
  have a: "sphereSize - 1 \<le> Vector3Length (position outwardParticle)"
    by (simp add: outwardParticle_def initParticle_def sphereSize_def vec_defs)
  have b: "0 < Vector3DotProduct (position outwardParticle) (velocity outwardParticle)"
    by (simp add: outwardParticle_def initParticle_def vec_defs)
  have c: "Vector3Length (velocity outwardParticle) = 5"
    by (simp add: outwardParticle_def initParticle_def Vector3Length_def real_sqrt_unique)
  from reflection_speed [OF a b] a b c show ?thesis by simp
qed

subsection \<open>Arrays of a run\<close>

text \<open>
  The array inside an in-place loop differs from the array at the start of the loop only
  in the field the loop writes.
\<close>

lemma loopArray_inplace:
  assumes "\<And>qs. map key qs = map key ps \<Longrightarrow> body qs = body ps"
      and "\<And>p. key (body ps p) = key p"
      and "k \<le> length ps"
  shows "loopArray body k ps = map (body ps) (take k ps) @ drop k ps"
  unfolding loopArray_def
  using foldl_inplace [where key = key and body = body and ps = ps and n = k, OF assms(1) assms(2) assms(3)]
  by simp

lemma loopArray_key:
  assumes "\<And>qs. map key qs = map key ps \<Longrightarrow> body qs = body ps"
      and "\<And>p. key (body ps p) = key p"
      and "k \<le> length ps"
  shows "map key (loopArray body k ps) = map key ps"
proof -
  have "map key (loopArray body k ps) = map key (take k ps) @ map key (drop k ps)"
    using loopArray_inplace [where key = key and body = body and ps = ps and k = k,
            OF assms(1) assms(2) assms(3)]
    by (simp add: assms(2) o_def)
  then show ?thesis by (metis append_take_drop_id map_append)
qed

lemma colorGradient_loop_key:
  assumes "k \<le> length ps"
  shows "map (\<lambda>q. q\<lparr>colorGradient := Vector3Zero\<rparr>)
           (loopArray (\<lambda>ps p. p\<lparr>colorGradient := sampleColorGradient ps p\<rparr>) k ps)
         = map (\<lambda>q. q\<lparr>colorGradient := Vector3Zero\<rparr>) ps"
proof (rule loopArray_key [OF _ _ assms])
  fix qs
  assume "map (\<lambda>q. q\<lparr>colorGradient := Vector3Zero\<rparr>) qs
            = map (\<lambda>q. q\<lparr>colorGradient := Vector3Zero\<rparr>) ps"
  then have "\<And>p. sampleColorGradient qs p = sampleColorGradient ps p"
    by (rule sampleColorGradient_key)
  then show "(\<lambda>p. p\<lparr>colorGradient := sampleColorGradient qs p\<rparr>)
               = (\<lambda>p. p\<lparr>colorGradient := sampleColorGradient ps p\<rparr>)"
    by simp
next
  fix p
  show "p\<lparr>colorGradient := sampleColorGradient ps p, colorGradient := Vector3Zero\<rparr>
          = p\<lparr>colorGradient := Vector3Zero\<rparr>"
    by simp
qed

lemma force_loop_key:
  assumes "k \<le> length ps"
  shows "map (\<lambda>q. q\<lparr>acceleration := Vector3Zero\<rparr>)
           (loopArray (\<lambda>ps p. p\<lparr>acceleration := Vector3Scale (netForce ps p) (1 / density p)\<rparr>) k ps)
         = map (\<lambda>q. q\<lparr>acceleration := Vector3Zero\<rparr>) ps"
proof (rule loopArray_key [OF _ _ assms])
  fix qs
  assume "map (\<lambda>q. q\<lparr>acceleration := Vector3Zero\<rparr>) qs
            = map (\<lambda>q. q\<lparr>acceleration := Vector3Zero\<rparr>) ps"
  then have "\<And>p. netForce qs p = netForce ps p" by (rule netForce_key)
  then show "(\<lambda>p. p\<lparr>acceleration := Vector3Scale (netForce qs p) (1 / density p)\<rparr>)
               = (\<lambda>p. p\<lparr>acceleration := Vector3Scale (netForce ps p) (1 / density p)\<rparr>)"
    by simp
next
  fix p
  show "p\<lparr>acceleration := Vector3Scale (netForce ps p) (1 / density p),
           acceleration := Vector3Zero\<rparr> = p\<lparr>acceleration := Vector3Zero\<rparr>"
    by simp
qed

lemma map_eq_nth:
  assumes "map f qs = map f ps" and "l < length ps"
  shows "f (qs ! l) = f (ps ! l)"
proof -
  have "length qs = length ps" using assms(1) by (rule map_eq_imp_length_eq)
  then have "f (qs ! l) = map f qs ! l" using assms(2) by simp
  also have "\<dots> = map f ps ! l" by (simp add: assms(1))
  also have "\<dots> = f (ps ! l)" using assms(2) by simp
  finally show ?thesis .
qed

text \<open>
  In every array of a run each mass is \<open>1\<close>, and the density that the density pass
  computes is at least the particle's own term \<open>W_poly6 (0, 12) = 35 / (12288 \<pi>)\<close>. In
  exact arithmetic the densities that a run divides by are therefore never zero.
\<close>

lemma map_mass_updateParticles: "map mass (updateParticles dt ps) = map mass ps"
  by (simp add: updateParticles_def map_mass_passes)

lemma map_mass_mainLoop: "map mass (mainLoop frames ps) = map mass ps"
  by (induction frames arbitrary: ps) (simp_all add: map_mass_updateParticles)

lemma length_mainLoop [simp]: "length (mainLoop frames ps) = length ps"
  using map_mass_mainLoop [of frames ps] by (rule map_eq_imp_length_eq)

lemma mass_run:
  assumes "l < length positions"
  shows "mass (mainLoop frames (initParticles positions) ! l) = 1"
proof -
  have "mass (mainLoop frames (initParticles positions) ! l)
          = mass (initParticles positions ! l)"
    by (rule map_eq_nth [OF map_mass_mainLoop]) (simp add: initParticles_def assms)
  then show ?thesis using assms by (simp add: initParticles_def initParticle_def)
qed

lemma sampleDensity_ge_self:
  assumes "\<forall>q\<in>set ps. 0 \<le> mass q" and "p \<in> set ps"
  shows "mass p * W_poly6 (Vector3Subtract (position p) (position p)) sampleRadius
           \<le> sampleDensity ps p"
proof -
  let ?f = "\<lambda>q. mass q * W_poly6 (Vector3Subtract (position p) (position q)) sampleRadius"
  have nn: "\<forall>v\<in>set (map ?f ps). 0 \<le> v"
  proof
    fix v assume "v \<in> set (map ?f ps)"
    then obtain q where q: "q \<in> set ps" and v: "v = ?f q" by auto
    from q assms(1) have "0 \<le> mass q" by simp
    then show "0 \<le> v" unfolding v using W_poly6_nonneg by (rule mult_nonneg_nonneg)
  qed
  have "?f p \<in> set (map ?f ps)" using assms(2) by simp
  with nn have "?f p \<le> sum_list (map ?f ps)" by (rule member_le_sum_list_real)
  then show ?thesis by (simp add: sampleDensity_sum_list)
qed

lemma W_poly6_self_value: "W_poly6 (Vector3Subtract a a) sampleRadius = 35 / (12288 * pi)"
  by (simp add: W_poly6_def W_poly6_at_def sampleRadius_def PI_def)

lemma density_run_lower_bound:
  assumes "l < length positions"
  shows "35 / (12288 * pi)
           \<le> sampleDensity (mainLoop frames (initParticles positions))
                (mainLoop frames (initParticles positions) ! l)"
proof -
  let ?S = "mainLoop frames (initParticles positions)"
  have len: "length ?S = length positions" by (simp add: initParticles_def)
  have m: "\<forall>q\<in>set ?S. mass q = 1"
  proof
    fix q assume "q \<in> set ?S"
    then obtain n where "n < length ?S" and "q = ?S ! n" by (auto simp: in_set_conv_nth)
    then show "mass q = 1" using mass_run [of n positions frames] len by simp
  qed
  then have nn: "\<forall>q\<in>set ?S. 0 \<le> mass q" by simp
  have mem: "?S ! l \<in> set ?S" using assms len by simp
  have "mass (?S ! l) * W_poly6 (Vector3Subtract (position (?S ! l)) (position (?S ! l))) sampleRadius
          \<le> sampleDensity ?S (?S ! l)"
    using nn mem by (rule sampleDensity_ge_self)
  then show ?thesis using m mem by (simp add: W_poly6_self_value)
qed

lemma density_field_passes:
  assumes "l < length ps"
  shows "density (pressurePass (densityPass ps) ! l) = sampleDensity ps (ps ! l)"
proof -
  have "map density (pressurePass (densityPass ps)) = map (sampleDensity ps) ps"
    by (simp add: map_density_passes)
  from map_eq_nth [of density "pressurePass (densityPass ps)" "map (\<lambda>p. p\<lparr>density := sampleDensity ps p\<rparr>) ps" l]
  show ?thesis using assms
    by (simp add: pressurePass_map densityPass_map)
qed

subsection \<open>Pressure force\<close>

lemma Vector3Subtract_swap: "Vector3Subtract a b = Vector3Negate (Vector3Subtract b a)"
  by (simp add: Vector3Subtract_def Vector3Negate_def)

lemma Vector3Normalize_Negate:
  "Vector3Normalize (Vector3Negate v) = Vector3Negate (Vector3Normalize v)"
  by (simp add: Vector3Normalize_def Let_def) (simp add: Vector3Negate_def)

lemma Vector3Scale_Negate: "Vector3Scale (Vector3Negate v) s = Vector3Negate (Vector3Scale v s)"
  by (simp add: Vector3Scale_def Vector3Negate_def)

lemma W_spiky_Gradient_Negate [simp]:
  "W_spiky_Gradient (Vector3Negate r) h = W_spiky_Gradient r h"
  by (simp add: W_spiky_Gradient_def)

lemma pressureForceTerm_negate:
  assumes "density p = density q" and "pressure p = pressure q" and "mass p = mass q"
  shows "pressureForceTerm p q = Vector3Negate (pressureForceTerm q p)"
proof -
  let ?r = "Vector3Subtract (position q) (position p)"
  have "Vector3Subtract (position p) (position q) = Vector3Negate ?r"
    by (rule Vector3Subtract_swap)
  then show ?thesis
    using assms
    by (simp add: pressureForceTerm_def Let_def Vector3Normalize_Negate Vector3Scale_Negate
          add.commute)
qed

lemma pressureForceTerm_key:
  "pressureForceTerm p q
     = pressureForceTerm (p\<lparr>acceleration := Vector3Zero\<rparr>) (q\<lparr>acceleration := Vector3Zero\<rparr>)"
  by (simp add: pressureForceTerm_def)

lemma forceLoopArray_key_nth:
  assumes "k \<le> length positions" and "l < length positions"
  shows "(forceLoopArray frames positions k ! l)\<lparr>acceleration := Vector3Zero\<rparr>
           = (fieldsOf (mainLoop frames (initParticles positions)) ! l)\<lparr>acceleration := Vector3Zero\<rparr>"
proof -
  let ?F = "fieldsOf (mainLoop frames (initParticles positions))"
  have len: "length ?F = length positions" by (simp add: fieldsOf_def initParticles_def)
  have "map (\<lambda>q. q\<lparr>acceleration := Vector3Zero\<rparr>) (forceLoopArray frames positions k)
          = map (\<lambda>q. q\<lparr>acceleration := Vector3Zero\<rparr>) ?F"
    unfolding forceLoopArray_def
    by (rule force_loop_key) (simp add: len assms(1))
  then show ?thesis by (rule map_eq_nth) (simp add: len assms(2))
qed

lemma mass_fieldsOf_run:
  assumes "l < length positions"
  shows "mass (fieldsOf (mainLoop frames (initParticles positions)) ! l) = 1"
proof -
  let ?S = "mainLoop frames (initParticles positions)"
  have "map mass (fieldsOf ?S) = map mass ?S" by (simp add: fieldsOf_def map_mass_passes)
  then have "mass (fieldsOf ?S ! l) = mass (?S ! l)"
    by (rule map_eq_nth) (simp add: initParticles_def assms)
  then show ?thesis by (simp add: mass_run [OF assms])
qed

text \<open>
  Claim C5. In every call of \<^verbatim>\<open>updateParticles\<close> of a run, for any two distinct particles
  \<open>i\<close> and \<open>j\<close> whose density fields are equal and whose pressure fields are equal, the
  term that \<open>j\<close> contributes to \<^verbatim>\<open>samplePressureForce\<close> of \<open>i\<close> (computed at loop index
  \<open>i\<close> of the force loop) is the negation of the term that \<open>i\<close> contributes to
  \<^verbatim>\<open>samplePressureForce\<close> of \<open>j\<close> (computed at loop index \<open>j\<close>). The term carries the mass
  of the contributing particle as a factor; in a run every mass is \<open>1\<close>.
\<close>

theorem pressure_term_antisymmetric:
  assumes "i < length positions" and "j < length positions" and "i \<noteq> j"
      and "density (forceLoopArray frames positions i ! i)
             = density (forceLoopArray frames positions i ! j)"
      and "pressure (forceLoopArray frames positions i ! i)
             = pressure (forceLoopArray frames positions i ! j)"
  shows "pressureForceTerm (forceLoopArray frames positions i ! i)
           (forceLoopArray frames positions i ! j)
         = Vector3Negate
             (pressureForceTerm (forceLoopArray frames positions j ! j)
                (forceLoopArray frames positions j ! i))"
proof -
  let ?F = "fieldsOf (mainLoop frames (initParticles positions))"
  let ?k = "\<lambda>q. q\<lparr>acceleration := Vector3Zero\<rparr>"
  have ii: "?k (forceLoopArray frames positions i ! i) = ?k (?F ! i)"
    using assms(1) by (intro forceLoopArray_key_nth) simp_all
  have ij: "?k (forceLoopArray frames positions i ! j) = ?k (?F ! j)"
    using assms(1,2) by (intro forceLoopArray_key_nth) simp_all
  have jj: "?k (forceLoopArray frames positions j ! j) = ?k (?F ! j)"
    using assms(2) by (intro forceLoopArray_key_nth) simp_all
  have ji: "?k (forceLoopArray frames positions j ! i) = ?k (?F ! i)"
    using assms(1,2) by (intro forceLoopArray_key_nth) simp_all
  have d: "density (?k (?F ! i)) = density (?k (?F ! j))"
    using assms(4) arg_cong [OF ii, of density] arg_cong [OF ij, of density] by simp
  have p: "pressure (?k (?F ! i)) = pressure (?k (?F ! j))"
    using assms(5) arg_cong [OF ii, of pressure] arg_cong [OF ij, of pressure] by simp
  have m: "mass (?k (?F ! i)) = mass (?k (?F ! j))"
    using mass_fieldsOf_run [OF assms(1), of frames] mass_fieldsOf_run [OF assms(2), of frames]
    by simp
  have "pressureForceTerm (forceLoopArray frames positions i ! i)
          (forceLoopArray frames positions i ! j)
        = pressureForceTerm (?k (?F ! i)) (?k (?F ! j))"
    by (subst pressureForceTerm_key) (simp only: ii ij)
  also have "\<dots> = Vector3Negate (pressureForceTerm (?k (?F ! j)) (?k (?F ! i)))"
    using d p m by (rule pressureForceTerm_negate)
  also have "pressureForceTerm (?k (?F ! j)) (?k (?F ! i))
        = pressureForceTerm (forceLoopArray frames positions j ! j)
            (forceLoopArray frames positions j ! i)"
    by (subst (2) pressureForceTerm_key) (simp only: jj ji)
  finally show ?thesis .
qed

theorem pressure_term_antisymmetric_witness:
  "(0::nat) < length [\<lparr>x = 0, y = 0, z = 0\<rparr>, \<lparr>x = 1, y = 0, z = 0\<rparr>]
   \<and> Suc 0 < length [\<lparr>x = 0, y = 0, z = 0\<rparr>, \<lparr>x = 1, y = 0, z = 0\<rparr>]
   \<and> (0::nat) \<noteq> Suc 0
   \<and> density (forceLoopArray 0 [\<lparr>x = 0, y = 0, z = 0\<rparr>, \<lparr>x = 1, y = 0, z = 0\<rparr>] 0 ! 0)
       = 206856685 / (36691771392 * pi)
   \<and> density (forceLoopArray 0 [\<lparr>x = 0, y = 0, z = 0\<rparr>, \<lparr>x = 1, y = 0, z = 0\<rparr>] 0 ! Suc 0)
       = 206856685 / (36691771392 * pi)
   \<and> pressure (forceLoopArray 0 [\<lparr>x = 0, y = 0, z = 0\<rparr>, \<lparr>x = 1, y = 0, z = 0\<rparr>] 0 ! 0)
       = pressure (forceLoopArray 0 [\<lparr>x = 0, y = 0, z = 0\<rparr>, \<lparr>x = 1, y = 0, z = 0\<rparr>] 0 ! Suc 0)
   \<and> pressureForceTerm
         (forceLoopArray 0 [\<lparr>x = 0, y = 0, z = 0\<rparr>, \<lparr>x = 1, y = 0, z = 0\<rparr>] 0 ! 0)
         (forceLoopArray 0 [\<lparr>x = 0, y = 0, z = 0\<rparr>, \<lparr>x = 1, y = 0, z = 0\<rparr>] 0 ! Suc 0)
       = \<lparr>x = - ((1109926084608 / 5 - 12514829442500 / pi) / 68630083522560), y = 0, z = 0\<rparr>
   \<and> pressureForceTerm
         (forceLoopArray 0 [\<lparr>x = 0, y = 0, z = 0\<rparr>, \<lparr>x = 1, y = 0, z = 0\<rparr>] (Suc 0) ! Suc 0)
         (forceLoopArray 0 [\<lparr>x = 0, y = 0, z = 0\<rparr>, \<lparr>x = 1, y = 0, z = 0\<rparr>] (Suc 0) ! 0)
       = \<lparr>x = - ((12514829442500 / pi - 1109926084608 / 5) / 68630083522560), y = 0, z = 0\<rparr>"
  using pressure_term_antisymmetric
          [of 0 "[\<lparr>x = 0, y = 0, z = 0\<rparr>, \<lparr>x = 1, y = 0, z = 0\<rparr>]" "Suc 0" 0]
  by (simp add: forceLoopArray_def loopArray_def step_defs sampler_defs kernel_defs vec_defs
        Let_def)

subsection \<open>Colour gradient\<close>

lemma colorGradientTerm_checked_value:
  "colorGradientTerm_checked particle p = Some v \<Longrightarrow> colorGradientTerm particle p = v"
  by (auto simp add: colorGradientTerm_checked_def colorGradientTerm_def
        Vector3Normalize_checked_def Vector3Normalize_def W_poly6_Gradient_checked_def
        W_poly6_Gradient_def W_poly6_Gradient_at_def fdiv_def Let_def
        split: if_splits Option.bind_splits)

text \<open>
  Where the checked model returns \<open>None\<close>: at an array element of density zero, and in the
  division that the zero-length test of the normalisation avoids for the zero
  displacement.
\<close>

lemma colorGradientTerm_checked_zero_density:
  "density p = 0 \<Longrightarrow> colorGradientTerm_checked particle p = None"
  by (simp add: colorGradientTerm_checked_def fdiv_def Let_def split: Option.bind_splits)

lemma normalize_division_at_zero:
  "fdiv 1 (Vector3Length (Vector3Subtract a a)) = None"
  by (simp add: fdiv_def)

lemma colorGradientTerm_checked_self:
  assumes "density p \<noteq> 0"
  shows "colorGradientTerm_checked p p = Some Vector3Zero"
  using assms
  by (simp add: colorGradientTerm_checked_def Vector3Normalize_checked_def
        W_poly6_Gradient_checked_def fdiv_def Let_def sampleRadius_def PI_def
        Vector3Scale_def Vector3Subtract_def Vector3Zero_def Vector3Length_def)

lemma density_colorGradientLoopArray:
  assumes "k \<le> length positions" and "l < length positions"
  shows "density (colorGradientLoopArray frames positions k ! l)
           = sampleDensity (mainLoop frames (initParticles positions))
               (mainLoop frames (initParticles positions) ! l)"
proof -
  let ?S = "mainLoop frames (initParticles positions)"
  let ?F = "pressurePass (densityPass ?S)"
  have len: "length ?S = length positions" by (simp add: initParticles_def)
  have "map (\<lambda>q. q\<lparr>colorGradient := Vector3Zero\<rparr>) (colorGradientLoopArray frames positions k)
          = map (\<lambda>q. q\<lparr>colorGradient := Vector3Zero\<rparr>) ?F"
    unfolding colorGradientLoopArray_def
    by (rule colorGradient_loop_key) (simp add: initParticles_def assms(1))
  then have "(colorGradientLoopArray frames positions k ! l)\<lparr>colorGradient := Vector3Zero\<rparr>
               = (?F ! l)\<lparr>colorGradient := Vector3Zero\<rparr>"
    by (rule map_eq_nth) (simp add: initParticles_def assms(2))
  then have "density ((colorGradientLoopArray frames positions k ! l)\<lparr>colorGradient := Vector3Zero\<rparr>)
               = density ((?F ! l)\<lparr>colorGradient := Vector3Zero\<rparr>)"
    by (rule arg_cong)
  then have "density (colorGradientLoopArray frames positions k ! l) = density (?F ! l)"
    by simp
  also have "\<dots> = sampleDensity ?S (?S ! l)"
    by (rule density_field_passes) (simp add: initParticles_def assms(2))
  finally show ?thesis .
qed

text \<open>
  Claim C8. In the colour-gradient loop of every call of \<^verbatim>\<open>updateParticles\<close> of a run, the
  term of particle \<open>i\<close> for itself is the zero vector, and it is computed without a
  division by zero, so it is a number and not a NaN: the displacement is zero, its
  normalisation returns it without dividing, the density just computed is positive, and
  the zero vector scaled by a number is the zero vector. Adding the term leaves the
  accumulator as it is.
\<close>

theorem colorGradient_self_term_zero:
  assumes "i < length positions"
  shows "(let particles = colorGradientLoopArray frames positions i in
          colorGradientTerm_checked (particles ! i) (particles ! i) = Some Vector3Zero
          \<and> colorGradientTerm (particles ! i) (particles ! i) = Vector3Zero
          \<and> Vector3Add acc (colorGradientTerm (particles ! i) (particles ! i)) = acc)"
proof -
  let ?A = "colorGradientLoopArray frames positions i"
  have "0 < (35::real) / (12288 * pi)" by simp
  also have "\<dots> \<le> density (?A ! i)"
    using assms density_run_lower_bound [OF assms, of frames]
    by (simp add: density_colorGradientLoopArray)
  finally have "density (?A ! i) \<noteq> 0" by simp
  then have c: "colorGradientTerm_checked (?A ! i) (?A ! i) = Some Vector3Zero"
    by (rule colorGradientTerm_checked_self)
  then have v: "colorGradientTerm (?A ! i) (?A ! i) = Vector3Zero"
    by (rule colorGradientTerm_checked_value)
  have "Vector3Add acc Vector3Zero = acc" by (simp add: Vector3Add_def Vector3Zero_def)
  with c v show ?thesis by (simp add: Let_def)
qed

theorem colorGradient_self_term_zero_witness:
  "Suc 0 < length [\<lparr>x = 0, y = 0, z = 0\<rparr>, \<lparr>x = 1, y = 0, z = 0\<rparr>]
   \<and> density (colorGradientLoopArray 0 [\<lparr>x = 0, y = 0, z = 0\<rparr>, \<lparr>x = 1, y = 0, z = 0\<rparr>] (Suc 0)
                 ! Suc 0)
       = 206856685 / (36691771392 * pi)
   \<and> colorGradientTerm_checked
         (colorGradientLoopArray 0 [\<lparr>x = 0, y = 0, z = 0\<rparr>, \<lparr>x = 1, y = 0, z = 0\<rparr>] (Suc 0) ! Suc 0)
         (colorGradientLoopArray 0 [\<lparr>x = 0, y = 0, z = 0\<rparr>, \<lparr>x = 1, y = 0, z = 0\<rparr>] (Suc 0) ! Suc 0)
       = Some \<lparr>x = 0, y = 0, z = 0\<rparr>
   \<and> colorGradientTerm
         (colorGradientLoopArray 0 [\<lparr>x = 0, y = 0, z = 0\<rparr>, \<lparr>x = 1, y = 0, z = 0\<rparr>] (Suc 0) ! Suc 0)
         (colorGradientLoopArray 0 [\<lparr>x = 0, y = 0, z = 0\<rparr>, \<lparr>x = 1, y = 0, z = 0\<rparr>] (Suc 0) ! Suc 0)
       = \<lparr>x = 0, y = 0, z = 0\<rparr>
   \<and> Vector3Add \<lparr>x = 1, y = 2, z = 3\<rparr>
         (colorGradientTerm
           (colorGradientLoopArray 0 [\<lparr>x = 0, y = 0, z = 0\<rparr>, \<lparr>x = 1, y = 0, z = 0\<rparr>] (Suc 0) ! Suc 0)
           (colorGradientLoopArray 0 [\<lparr>x = 0, y = 0, z = 0\<rparr>, \<lparr>x = 1, y = 0, z = 0\<rparr>] (Suc 0) ! Suc 0))
       = \<lparr>x = 1, y = 2, z = 3\<rparr>"
proof -
  have d: "density (colorGradientLoopArray 0 [\<lparr>x = 0, y = 0, z = 0\<rparr>, \<lparr>x = 1, y = 0, z = 0\<rparr>] (Suc 0)
                 ! Suc 0)
       = 206856685 / (36691771392 * pi)"
    by (simp add: colorGradientLoopArray_def loopArray_def step_defs sampler_defs kernel_defs
          vec_defs Let_def)
  from colorGradient_self_term_zero
         [of "Suc 0" "[\<lparr>x = 0, y = 0, z = 0\<rparr>, \<lparr>x = 1, y = 0, z = 0\<rparr>]" 0 "\<lparr>x = 1, y = 2, z = 3\<rparr>"]
  show ?thesis
    by (simp add: Let_def Vector3Zero_def Vector3Add_def d)
qed

subsection \<open>Kernels at the support boundary\<close>

lemma isCont_cut_off:
  fixes f g :: "real \<Rightarrow> real"
  assumes cont: "isCont f h" and zero: "f h = 0"
      and g: "\<And>m. g m = (if 0 \<le> m \<and> m \<le> h then f m else 0)"
  shows "isCont g h"
proof -
  have "(f \<longlongrightarrow> 0) (at h)" using cont zero by (simp add: isCont_def)
  moreover have "eventually (\<lambda>m. norm (g m) \<le> norm (f m) * 1) (at h)"
    by (rule always_eventually) (simp add: g)
  ultimately have "(g \<longlongrightarrow> 0) (at h)" by (rule tendsto_0_le)
  moreover have "g h = 0" by (simp add: g zero)
  ultimately show ?thesis by (simp add: isCont_def)
qed

lemma isCont_W_poly6_at: "isCont (\<lambda>m. W_poly6_at m h) h"
proof -
  define c where "c = 315 / (64 * PI * h ^ 9)"
  have cont: "isCont (\<lambda>m. c * (h * h - m * m) ^ 3) h"
    by (intro continuous_intros)
  have zero: "(\<lambda>m. c * (h * h - m * m) ^ 3) h = 0"
    by simp
  have cut: "\<And>m. W_poly6_at m h = (if 0 \<le> m \<and> m \<le> h then c * (h * h - m * m) ^ 3 else 0)"
    by (simp add: W_poly6_at_def c_def)
  show ?thesis
    by (rule isCont_cut_off [where f = "\<lambda>m. c * (h * h - m * m) ^ 3", OF cont zero cut])
qed

lemma isCont_W_poly6_Gradient_at: "isCont (\<lambda>m. W_poly6_Gradient_at m h) h"
proof -
  define c where "c = 315 / (64 * PI * h ^ 9)"
  have cont: "isCont (\<lambda>m. c * (- 2 * m) * 3 * (h * h - m * m) ^ 2) h"
    by (intro continuous_intros)
  have zero: "(\<lambda>m. c * (- 2 * m) * 3 * (h * h - m * m) ^ 2) h = 0"
    by simp
  have cut: "\<And>m. W_poly6_Gradient_at m h = (if 0 \<le> m \<and> m \<le> h then c * (- 2 * m) * 3 * (h * h - m * m) ^ 2 else 0)"
    by (simp add: W_poly6_Gradient_at_def c_def)
  show ?thesis
    by (rule isCont_cut_off [where f = "\<lambda>m. c * (- 2 * m) * 3 * (h * h - m * m) ^ 2", OF cont zero cut])
qed

lemma isCont_W_poly6_Laplacian_at: "isCont (\<lambda>m. W_poly6_Laplacian_at m h) h"
proof -
  define c where "c = 315 / (64 * PI * h ^ 9)"
  have cont: "isCont (\<lambda>m. c * 6 * (h * h - m * m) * (5 * m * m - h * h)) h"
    by (intro continuous_intros)
  have zero: "(\<lambda>m. c * 6 * (h * h - m * m) * (5 * m * m - h * h)) h = 0"
    by simp
  have cut: "\<And>m. W_poly6_Laplacian_at m h = (if 0 \<le> m \<and> m \<le> h then c * 6 * (h * h - m * m) * (5 * m * m - h * h) else 0)"
    by (simp add: W_poly6_Laplacian_at_def c_def)
  show ?thesis
    by (rule isCont_cut_off [where f = "\<lambda>m. c * 6 * (h * h - m * m) * (5 * m * m - h * h)", OF cont zero cut])
qed

lemma isCont_W_viscosity_Laplacian_at: "isCont (\<lambda>m. W_viscosity_Laplacian_at m h) h"
proof -
  define c where "c = 45 / (PI * h ^ 6)"
  have cont: "isCont (\<lambda>m. c * (h - m)) h"
    by (intro continuous_intros)
  have zero: "(\<lambda>m. c * (h - m)) h = 0"
    by simp
  have cut: "\<And>m. W_viscosity_Laplacian_at m h = (if 0 \<le> m \<and> m \<le> h then c * (h - m) else 0)"
    by (simp add: W_viscosity_Laplacian_at_def c_def)
  show ?thesis
    by (rule isCont_cut_off [where f = "\<lambda>m. c * (h - m)", OF cont zero cut])
qed

lemma isCont_W_spiky_at: "isCont (\<lambda>m. W_spiky_at m h) h"
proof -
  define c where "c = 15 / (PI * h ^ 6)"
  have cont: "isCont (\<lambda>m. c * (h - m) ^ 3) h"
    by (intro continuous_intros)
  have zero: "(\<lambda>m. c * (h - m) ^ 3) h = 0"
    by simp
  have cut: "\<And>m. W_spiky_at m h = (if 0 \<le> m \<and> m \<le> h then c * (h - m) ^ 3 else 0)"
    by (simp add: W_spiky_at_def c_def)
  show ?thesis
    by (rule isCont_cut_off [where f = "\<lambda>m. c * (h - m) ^ 3", OF cont zero cut])
qed

lemma isCont_W_spiky_Gradient_at: "isCont (\<lambda>m. W_spiky_Gradient_at m h) h"
proof -
  define c where "c = 15 / (PI * h ^ 6)"
  have cont: "isCont (\<lambda>m. c * (- 1) * 3 * (h - m) ^ 2) h"
    by (intro continuous_intros)
  have zero: "(\<lambda>m. c * (- 1) * 3 * (h - m) ^ 2) h = 0"
    by simp
  have cut: "\<And>m. W_spiky_Gradient_at m h = (if 0 \<le> m \<and> m \<le> h then c * (- 1) * 3 * (h - m) ^ 2 else 0)"
    by (simp add: W_spiky_Gradient_at_def c_def)
  show ?thesis
    by (rule isCont_cut_off [where f = "\<lambda>m. c * (- 1) * 3 * (h - m) ^ 2", OF cont zero cut])
qed

lemma kernels_at_zero_from_boundary:
  assumes "h \<le> m"
  shows "W_poly6_at m h = 0" and "W_poly6_Gradient_at m h = 0" and "W_poly6_Laplacian_at m h = 0"
    and "W_viscosity_Laplacian_at m h = 0" and "W_spiky_at m h = 0"
    and "W_spiky_Gradient_at m h = 0"
  using assms
  by (auto simp add: W_poly6_at_def W_poly6_Gradient_at_def W_poly6_Laplacian_at_def
        W_viscosity_Laplacian_at_def W_spiky_at_def W_spiky_Gradient_at_def)

text \<open>
  Claim C7. Each of the six kernels returns \<open>0\<close> for every displacement \<open>r\<close> whose length
  exceeds \<open>h\<close> and also where the length equals \<open>h\<close>; and each radial profile is
  continuous at \<open>h\<close>.
\<close>

theorem kernels_vanish_from_support_boundary:
  "(h < Vector3Length r \<or> Vector3Length r = h
      \<longrightarrow> W_poly6 r h = 0 \<and> W_poly6_Gradient r h = 0 \<and> W_poly6_Laplacian r h = 0
          \<and> W_viscosity_Laplacian r h = 0 \<and> W_spiky r h = 0 \<and> W_spiky_Gradient r h = 0)
   \<and> isCont (\<lambda>m. W_poly6_at m h) h
   \<and> isCont (\<lambda>m. W_poly6_Gradient_at m h) h
   \<and> isCont (\<lambda>m. W_poly6_Laplacian_at m h) h
   \<and> isCont (\<lambda>m. W_viscosity_Laplacian_at m h) h
   \<and> isCont (\<lambda>m. W_spiky_at m h) h
   \<and> isCont (\<lambda>m. W_spiky_Gradient_at m h) h"
proof -
  have "h \<le> Vector3Length r \<Longrightarrow>
          W_poly6 r h = 0 \<and> W_poly6_Gradient r h = 0 \<and> W_poly6_Laplacian r h = 0
          \<and> W_viscosity_Laplacian r h = 0 \<and> W_spiky r h = 0 \<and> W_spiky_Gradient r h = 0"
    by (simp add: W_poly6_def W_poly6_Gradient_def W_poly6_Laplacian_def
          W_viscosity_Laplacian_def W_spiky_def W_spiky_Gradient_def
          kernels_at_zero_from_boundary)
  then show ?thesis
    using isCont_W_poly6_at isCont_W_poly6_Gradient_at isCont_W_poly6_Laplacian_at
      isCont_W_viscosity_Laplacian_at isCont_W_spiky_at isCont_W_spiky_Gradient_at
    by auto
qed

theorem kernels_vanish_from_support_boundary_witness:
  "sampleRadius < Vector3Length \<lparr>x = 13, y = 0, z = 0\<rparr>
   \<and> W_poly6 \<lparr>x = 13, y = 0, z = 0\<rparr> sampleRadius = 0
   \<and> W_poly6_Gradient \<lparr>x = 13, y = 0, z = 0\<rparr> sampleRadius = 0
   \<and> W_poly6_Laplacian \<lparr>x = 13, y = 0, z = 0\<rparr> sampleRadius = 0
   \<and> W_viscosity_Laplacian \<lparr>x = 13, y = 0, z = 0\<rparr> sampleRadius = 0
   \<and> W_spiky \<lparr>x = 13, y = 0, z = 0\<rparr> sampleRadius = 0
   \<and> W_spiky_Gradient \<lparr>x = 13, y = 0, z = 0\<rparr> sampleRadius = 0
   \<and> Vector3Length \<lparr>x = 12, y = 0, z = 0\<rparr> = sampleRadius
   \<and> W_poly6 \<lparr>x = 12, y = 0, z = 0\<rparr> sampleRadius = 0
   \<and> W_poly6_Gradient \<lparr>x = 12, y = 0, z = 0\<rparr> sampleRadius = 0
   \<and> W_poly6_Laplacian \<lparr>x = 12, y = 0, z = 0\<rparr> sampleRadius = 0
   \<and> W_viscosity_Laplacian \<lparr>x = 12, y = 0, z = 0\<rparr> sampleRadius = 0
   \<and> W_spiky \<lparr>x = 12, y = 0, z = 0\<rparr> sampleRadius = 0
   \<and> W_spiky_Gradient \<lparr>x = 12, y = 0, z = 0\<rparr> sampleRadius = 0
   \<and> isCont (\<lambda>m. W_poly6_at m sampleRadius) sampleRadius"
proof -
  have a: "sampleRadius < Vector3Length \<lparr>x = 13, y = 0, z = 0\<rparr>"
    by (simp add: sampleRadius_def Vector3Length_x_axis)
  have b: "Vector3Length \<lparr>x = 12, y = 0, z = 0\<rparr> = sampleRadius"
    by (simp add: sampleRadius_def Vector3Length_x_axis)
  from kernels_vanish_from_support_boundary [of sampleRadius "\<lparr>x = 13, y = 0, z = 0\<rparr>"]
       kernels_vanish_from_support_boundary [of sampleRadius "\<lparr>x = 12, y = 0, z = 0\<rparr>"]
       a b
  show ?thesis by simp
qed

end
